theory Spec2Isabelle
  imports Complex_Main
begin

section \<open>Strings as the program uses them\<close>

text \<open>
  A JavaScript string is modelled as a \<^typ>\<open>string\<close>. The alphabet is the ASCII range:
  every string the decoder inspects structurally (newline framing, trimming, the
  \<open>/\<close> separator of episode identifiers, price strings) is ASCII.
\<close>

text \<open>\<open>String.prototype.trim\<close>: strips white space and line terminators from both ends
  (tab, line feed, vertical tab, form feed, carriage return, space).\<close>

definition js_whitespace :: "char \<Rightarrow> bool" where
  "js_whitespace c = (c \<in> set [CHR 0x09, CHR 0x0A, CHR 0x0B, CHR 0x0C, CHR 0x0D, CHR 0x20])"

definition trim :: "string \<Rightarrow> string" where
  "trim s = rev (dropWhile js_whitespace (rev (dropWhile js_whitespace s)))"

text \<open>\<open>s.split('\n')\<close>: always at least one piece; the last piece is what follows the
  last newline.\<close>

fun split_nl :: "string \<Rightarrow> string list" where
  "split_nl [] = [[]]"
| "split_nl (c # cs) =
     (if c = CHR 0x0A then [] # split_nl cs
      else (c # hd (split_nl cs)) # tl (split_nl cs))"

text \<open>\<open>xs.join(sep)\<close>.\<close>

fun join :: "string \<Rightarrow> string list \<Rightarrow> string" where
  "join sep [] = []"
| "join sep [x] = x"
| "join sep (x # y # ys) = x @ sep @ join sep (y # ys)"

text \<open>\<open>s.startsWith(p)\<close>.\<close>

definition startsWith :: "string \<Rightarrow> string \<Rightarrow> bool" where
  "startsWith s p = (take (length p) s = p)"

text \<open>A non-negative integer inside a template literal: its decimal digits.\<close>

definition digit_char :: "nat \<Rightarrow> char" where
  "digit_char d = ''0123456789'' ! d"

fun string_of_nat :: "nat \<Rightarrow> string" where
  "string_of_nat n =
     (if n < 10 then [digit_char n]
      else string_of_nat (n div 10) @ [digit_char (n mod 10)])"

text \<open>A \<open>string | null\<close> inside a template literal: \<open>null\<close> prints as the four letters.\<close>

definition template :: "string option \<Rightarrow> string" where
  "template v = (case v of None \<Rightarrow> ''null'' | Some s \<Rightarrow> s)"

text \<open>\<open>v ?? d\<close> on a nullable value: only \<open>null\<close>/\<open>undefined\<close> falls through to \<open>d\<close>.\<close>

definition nullish :: "'a option \<Rightarrow> 'a option \<Rightarrow> 'a option" where
  "nullish v d = (case v of None \<Rightarrow> d | Some x \<Rightarrow> Some x)"

definition nullish_or :: "'a option \<Rightarrow> 'a \<Rightarrow> 'a" where
  "nullish_or v d = (case v of None \<Rightarrow> d | Some x \<Rightarrow> x)"


section \<open>Domain objects (rhachet)\<close>

text \<open>\<open>BrainExchange\<close>, \<open>BrainEpisode\<close>, \<open>BrainSeries\<close>, \<open>BrainOutputMetrics\<close> and
  \<open>BrainOutput\<close> are plain data carriers; the fields are those the code constructs.
  Numbers (token counts, costs, durations) are kept in an arbitrary carrier \<open>'n\<close>:
  the theorems assume nothing of its arithmetic beyond what is stated.\<close>

record BrainExchange =
  exchange_hash :: string
  exchange_input :: string
  exchange_output :: string
  exchange_exid :: "string option"

record BrainEpisode =
  episode_hash :: string
  episode_exid :: "string option"
  exchanges :: "BrainExchange list"

record BrainSeries =
  series_hash :: string
  series_exid :: "string option"
  episodes :: "BrainEpisode list"

record 'n BrainOutputMetrics =
  size_tokens_input :: 'n
  size_tokens_output :: 'n
  size_tokens_cache_get :: 'n
  size_tokens_cache_set :: 'n
  size_chars_input :: nat
  size_chars_output :: nat
  size_chars_cache_get :: nat
  size_chars_cache_set :: nat
  cost_time_milliseconds :: 'n
  cost_cash_total :: string
  cost_cash_deets_input :: string
  cost_cash_deets_output :: string
  cost_cash_deets_cache_get :: string
  cost_cash_deets_cache_set :: string

record 'n BrainOutput =
  output_text :: string
  metrics :: "'n BrainOutputMetrics"
  episode :: BrainEpisode
  series :: BrainSeries

text \<open>\<open>BrainSpec.cost.cash\<close>: the four price strings.\<close>

record BrainSpecCash =
  cash_input :: string
  cash_output :: string
  cash_cache_get :: string
  cash_cache_set :: string


section \<open>Session reconciliation (getOneBrainOutputFromStreamJson.ts, finalize, lines 311-356)\<close>

definition episodesPrior :: "BrainSeries option \<Rightarrow> BrainEpisode list" where
  "episodesPrior seriesPrior = (case seriesPrior of None \<Rightarrow> [] | Some s \<Rightarrow> episodes s)"

definition episodeLatest :: "BrainEpisode list \<Rightarrow> BrainEpisode option" where
  "episodeLatest eps = (if eps = [] then None else Some (last eps))"

definition isSameContextWindow ::
  "bool \<Rightarrow> BrainEpisode option \<Rightarrow> string option \<Rightarrow> bool" where
  "isSameContextWindow compactionDetected latest sessionId =
     (\<not> compactionDetected \<and> latest \<noteq> None \<and> sessionId \<noteq> None \<and>
      (case latest of None \<Rightarrow> False | Some e \<Rightarrow> episode_exid e = sessionId))"

definition isCompactionSplit ::
  "bool \<Rightarrow> bool \<Rightarrow> BrainEpisode option \<Rightarrow> string option \<Rightarrow> bool" where
  "isCompactionSplit same compactionDetected latest sessionId =
     (\<not> same \<and> compactionDetected \<and>
      (case sessionId of
         None \<Rightarrow> False
       | Some sid \<Rightarrow>
          (case latest of
             None \<Rightarrow> False
           | Some e \<Rightarrow>
              (case episode_exid e of
                 None \<Rightarrow> False
               | Some x \<Rightarrow> x = sid \<or> startsWith x (sid @ ''/'')))))"

text \<open>The episode and the series built at the end of \<open>finalize\<close>. \<open>sha256\<close> is the digest
  of the \<open>crypto\<close> library, a parameter here.\<close>

definition reconcile ::
  "(string \<Rightarrow> string) \<Rightarrow> BrainSeries option \<Rightarrow> BrainExchange \<Rightarrow> string option \<Rightarrow> bool
     \<Rightarrow> BrainEpisode \<times> BrainSeries" where
  "reconcile sha256 seriesPrior exchange sessionId compactionDetected =
     (let eps = episodesPrior seriesPrior;
          latest = episodeLatest eps;
          same = isSameContextWindow compactionDetected latest sessionId;
          split = isCompactionSplit same compactionDetected latest sessionId;
          episodeExid =
            (if split then Some (template sessionId @ ''/'' @ string_of_nat (length eps))
             else sessionId);
          ep =
            (case (if same then latest else None) of
               Some l \<Rightarrow>
                 \<lparr> episode_hash =
                     sha256 (template sessionId @ '':'' @
                             join '':'' (map exchange_hash (exchanges l @ [exchange]))),
                   episode_exid = episodeExid,
                   exchanges = exchanges l @ [exchange] \<rparr>
             | None \<Rightarrow>
                 \<lparr> episode_hash =
                     sha256 (nullish_or sessionId ''ephemeral'' @ '':'' @ exchange_hash exchange),
                   episode_exid = episodeExid,
                   exchanges = [exchange] \<rparr>);
          episodesForSeries = (if same then butlast eps @ [ep] else eps @ [ep]);
          se = \<lparr> series_hash = sha256 (nullish_or sessionId ''ephemeral''),
                 series_exid = sessionId,
                 episodes = episodesForSeries \<rparr>
      in (ep, se))"

section \<open>Stream envelopes\<close>

text \<open>
  The stream is the nd-JSON event stream of the CLI: a line either is not JSON or
  decodes to an event object. \<open>JSON.parse\<close> belongs to the runtime, so the decoder
  takes it as a parameter: it returns \<open>None\<close> where \<open>JSON.parse\<close> throws, and otherwise
  the decoded object read at the optional shape the TypeScript source declares for it
  (the \<open>as\<close> casts of \<open>processLine\<close> and \<open>processStreamEvent\<close>). A field that is absent
  or \<open>null\<close> is \<open>None\<close>; values outside the declared shape, which the casts rule out,
  are not modelled.
\<close>

record 'n Usage =
  input_tokens :: "'n option"
  output_tokens :: "'n option"
  cache_creation_input_tokens :: "'n option"
  cache_read_input_tokens :: "'n option"

record ContentBlock =
  block_type :: string
  block_text :: "string option"

record 'n Message =
  message_content :: "ContentBlock list option"
  message_usage :: "'n Usage option"

record Delta =
  delta_type :: "string option"
  delta_text :: "string option"

record 'n InnerEvent =
  inner_type :: "string option"
  inner_message :: "'n Message option"
  inner_delta :: "Delta option"
  inner_usage :: "'n Usage option"

record 'n Envelope =
  event_type :: "string option"
  session_id :: "string option"
  cost_usd :: "'n option"
  duration_ms :: "'n option"
  result :: "string option"
  usage :: "'n Usage option"
  total_cost :: "'n option"
  message :: "'n Message option"
  event :: "'n InnerEvent option"
  subtype :: "string option"

text \<open>The runtime functions the decoder calls: \<open>JSON.parse\<close>, the \<open>sha256\<close> digest,
  \<open>Number.parseFloat\<close> (\<open>None\<close> is \<open>NaN\<close>) and \<open>value.toFixed(10)\<close>.\<close>

record 'n Runtime =
  JSON_parse :: "string \<Rightarrow> 'n Envelope option"
  sha256 :: "string \<Rightarrow> string"
  parseFloat :: "string \<Rightarrow> 'n option"
  toFixed10 :: "'n \<Rightarrow> string"


section \<open>Prices\<close>

text \<open>\<open>getOneNumericFromIsoPrice\<close>: drop every character outside \<open>[0-9.-]\<close>, parse what
  is left, and read \<open>NaN\<close> (and zero) as zero.\<close>

definition price_char :: "char \<Rightarrow> bool" where
  "price_char c = (c \<in> set ''0123456789.-'')"

definition getOneNumericFromIsoPrice :: "('n::zero) Runtime \<Rightarrow> string \<Rightarrow> 'n" where
  "getOneNumericFromIsoPrice rt price =
     (let cleaned = filter price_char price
      in nullish_or (parseFloat rt cleaned) 0)"

text \<open>\<open>getOneIsoPrice\<close>: a dollar sign and ten decimals.\<close>

definition getOneIsoPrice :: "'n Runtime \<Rightarrow> 'n \<Rightarrow> string" where
  "getOneIsoPrice rt v = ''$'' @ toFixed10 rt v"


section \<open>The decoder (getOneBrainOutputFromStreamJson)\<close>

text \<open>What the promise is settled with: \<open>onResolve(brainOutput)\<close>, or \<open>onReject\<close> with
  the \<open>UnexpectedCodePathError\<close> that carries the stream error's message.\<close>

datatype 'n settlement = Resolved "'n BrainOutput" | Rejected string

text \<open>The call's input, and the mutable variables of the promise body. Two fields
  record effects on the outside: \<open>settled\<close> lists the calls of \<open>onResolve\<close>/\<open>onReject\<close> in
  order, \<open>detached\<close> counts the calls of \<open>detachListeners\<close>.\<close>

record DecoderInput =
  prompt :: string
  spec_cost_cash :: BrainSpecCash
  seriesPrior :: "BrainSeries option"

record 'n Decoder =
  textAccumulated :: string
  sessionId :: "string option"
  tokensInput :: 'n
  tokensOutput :: 'n
  tokensCacheGet :: 'n
  tokensCacheSet :: 'n
  costUsd :: "'n option"
  durationMs :: "'n option"
  resultText :: "string option"
  compactionDetected :: bool
  resolved :: bool
  buffer :: string
  settled :: "'n settlement list"
  detached :: nat

definition decoder_init :: "('n::zero) Decoder" where
  "decoder_init =
     \<lparr> textAccumulated = [], sessionId = None,
       tokensInput = 0, tokensOutput = 0, tokensCacheGet = 0, tokensCacheSet = 0,
       costUsd = None, durationMs = None, resultText = None,
       compactionDetected = False, resolved = False, buffer = [],
       settled = [], detached = 0 \<rparr>"

text \<open>\<open>if (x) v = x\<close> on an optional number: a number is truthy unless it is zero.\<close>

definition truthy_num :: "('n::zero) option \<Rightarrow> 'n \<Rightarrow> 'n" where
  "truthy_num x v = (case x of None \<Rightarrow> v | Some n \<Rightarrow> if n = 0 then v else n)"

text \<open>The four guarded assignments from a \<open>usage\<close> object; the source writes them out
  in the \<open>result\<close>, \<open>assistant\<close> and \<open>message_delta\<close> branches alike.\<close>

definition take_usage :: "('n::zero) Usage \<Rightarrow> 'n Decoder \<Rightarrow> 'n Decoder" where
  "take_usage u st =
     st \<lparr> tokensInput := truthy_num (input_tokens u) (tokensInput st),
          tokensOutput := truthy_num (output_tokens u) (tokensOutput st),
          tokensCacheSet := truthy_num (cache_creation_input_tokens u) (tokensCacheSet st),
          tokensCacheGet := truthy_num (cache_read_input_tokens u) (tokensCacheGet st) \<rparr>"

text \<open>The \<open>for\<close> loop over \<open>message.content\<close>: text blocks with a non-empty text.\<close>

fun blocks_text :: "ContentBlock list \<Rightarrow> string" where
  "blocks_text [] = []"
| "blocks_text (b # bs) =
     (if block_type b = ''text'' \<and> block_text b \<noteq> None \<and> block_text b \<noteq> Some []
      then nullish_or (block_text b) [] @ blocks_text bs
      else blocks_text bs)"

definition processStreamEvent :: "('n::zero) InnerEvent \<Rightarrow> 'n Decoder \<Rightarrow> 'n Decoder" where
  "processStreamEvent ev st =
     (if inner_type ev = Some ''message_start'' then
        (case inner_message ev of
           None \<Rightarrow> st
         | Some m \<Rightarrow>
            (case message_usage m of
               None \<Rightarrow> st
             | Some u \<Rightarrow> st \<lparr> tokensInput := truthy_num (input_tokens u) (tokensInput st) \<rparr>))
      else if inner_type ev = Some ''content_block_delta'' then
        (case inner_delta ev of
           None \<Rightarrow> st
         | Some d \<Rightarrow>
            if delta_type d = Some ''text_delta'' \<and> delta_text d \<noteq> None \<and> delta_text d \<noteq> Some []
            then st \<lparr> textAccumulated := textAccumulated st @ nullish_or (delta_text d) [] \<rparr>
            else st)
      else if inner_type ev = Some ''message_delta'' then
        (case inner_usage ev of None \<Rightarrow> st | Some u \<Rightarrow> take_usage u st)
      else st)"

text \<open>\<open>finalize\<close>: guarded by \<open>resolved\<close>; detaches the listeners, computes the metrics,
  the exchange, the episode and the series, and resolves the promise.\<close>

definition finalize ::
  "('n::{zero,plus,times}) Runtime \<Rightarrow> DecoderInput \<Rightarrow> 'n Decoder \<Rightarrow> 'n Decoder" where
  "finalize rt inp st =
     (if resolved st then st
      else
        (let outputText = nullish_or (resultText st) (textAccumulated st);
             rates = spec_cost_cash inp;
             costInput = getOneNumericFromIsoPrice rt (cash_input rates) * tokensInput st;
             costOutput = getOneNumericFromIsoPrice rt (cash_output rates) * tokensOutput st;
             costCacheGet = getOneNumericFromIsoPrice rt (cash_cache_get rates) * tokensCacheGet st;
             costCacheSet = getOneNumericFromIsoPrice rt (cash_cache_set rates) * tokensCacheSet st;
             costTotalNum =
               nullish_or (costUsd st) (costInput + costOutput + costCacheGet + costCacheSet);
             costTime = nullish_or (durationMs st) 0;
             m = \<lparr> size_tokens_input = tokensInput st,
                   size_tokens_output = tokensOutput st,
                   size_tokens_cache_get = tokensCacheGet st,
                   size_tokens_cache_set = tokensCacheSet st,
                   size_chars_input = length (prompt inp),
                   size_chars_output = length outputText,
                   size_chars_cache_get = 0,
                   size_chars_cache_set = 0,
                   cost_time_milliseconds = costTime,
                   cost_cash_total = getOneIsoPrice rt costTotalNum,
                   cost_cash_deets_input = getOneIsoPrice rt costInput,
                   cost_cash_deets_output = getOneIsoPrice rt costOutput,
                   cost_cash_deets_cache_get = getOneIsoPrice rt costCacheGet,
                   cost_cash_deets_cache_set = getOneIsoPrice rt costCacheSet \<rparr>;
             exchange = \<lparr> exchange_hash = sha256 rt (prompt inp @ '':'' @ outputText),
                          exchange_input = prompt inp,
                          exchange_output = outputText,
                          exchange_exid = None \<rparr>;
             es = reconcile (sha256 rt) (seriesPrior inp) exchange (sessionId st)
                    (compactionDetected st);
             brainOutput = \<lparr> output_text = outputText, metrics = m,
                             episode = fst es, series = snd es \<rparr>
         in st \<lparr> resolved := True,
                 detached := Suc (detached st),
                 settled := settled st @ [Resolved brainOutput] \<rparr>))"

text \<open>The assignments of the three branches of \<open>processLine\<close> that read an envelope's
  own fields: the \<open>result\<close> branch up to its call of \<open>finalize\<close>, the \<open>assistant\<close> branch
  and the \<open>system\<close> branch.\<close>

definition take_result :: "('n::zero) Envelope \<Rightarrow> 'n Decoder \<Rightarrow> 'n Decoder" where
  "take_result ev st =
     (let st1 = st \<lparr> sessionId := nullish (session_id ev) (sessionId st),
                     costUsd := nullish (cost_usd ev) (costUsd st),
                     durationMs := nullish (duration_ms ev) (durationMs st),
                     resultText := nullish (result ev) (resultText st) \<rparr>;
          st2 = (case usage ev of None \<Rightarrow> st1 | Some u \<Rightarrow> take_usage u st1)
      in if total_cost ev \<noteq> None \<and> costUsd st2 = None
         then st2 \<lparr> costUsd := total_cost ev \<rparr> else st2)"

definition take_assistant :: "('n::zero) Envelope \<Rightarrow> 'n Decoder \<Rightarrow> 'n Decoder" where
  "take_assistant ev st =
     (let st1 = (case message ev of
                   None \<Rightarrow> st
                 | Some m \<Rightarrow>
                    (case message_content m of
                       None \<Rightarrow> st
                     | Some bs \<Rightarrow>
                        st \<lparr> textAccumulated := textAccumulated st @ blocks_text bs \<rparr>));
          st2 = (case message ev of
                   None \<Rightarrow> st1
                 | Some m \<Rightarrow>
                    (case message_usage m of None \<Rightarrow> st1 | Some u \<Rightarrow> take_usage u st1))
      in st2 \<lparr> sessionId := nullish (session_id ev) (sessionId st2) \<rparr>)"

definition take_system :: "'n Envelope \<Rightarrow> 'n Decoder \<Rightarrow> 'n Decoder" where
  "take_system ev st =
     (let st1 = st \<lparr> sessionId := nullish (session_id ev) (sessionId st) \<rparr>
      in if subtype ev = Some ''compact_boundary''
         then st1 \<lparr> compactionDetected := True \<rparr> else st1)"

text \<open>\<open>processLine\<close>: one complete line of the stream.\<close>

definition processLine ::
  "('n::{zero,plus,times}) Runtime \<Rightarrow> DecoderInput \<Rightarrow> string \<Rightarrow> 'n Decoder \<Rightarrow> 'n Decoder" where
  "processLine rt inp line st =
     (let trimmed = trim line in
      if trimmed = [] then st
      else
        (case JSON_parse rt trimmed of
           None \<Rightarrow> st
         | Some ev \<Rightarrow>
            if event_type ev = Some ''result'' then finalize rt inp (take_result ev st)
            else if event_type ev = Some ''assistant'' then take_assistant ev st
            else if event_type ev = Some ''stream_event'' then
              (case event ev of None \<Rightarrow> st | Some inner \<Rightarrow> processStreamEvent inner st)
            else if event_type ev = Some ''system'' then take_system ev st
            else if event_type ev = Some ''compact_boundary'' then
              st \<lparr> compactionDetected := True \<rparr>
            else st))"

text \<open>The \<open>for\<close> loop of \<open>onDataHandler\<close>: it stops as soon as a line has resolved.\<close>

fun process_lines ::
  "('n::{zero,plus,times}) Runtime \<Rightarrow> DecoderInput \<Rightarrow> string list \<Rightarrow> 'n Decoder \<Rightarrow> 'n Decoder" where
  "process_lines rt inp [] st = st"
| "process_lines rt inp (l # ls) st =
     (let st1 = processLine rt inp l st
      in if resolved st1 then st1 else process_lines rt inp ls st1)"

definition onDataHandler ::
  "('n::{zero,plus,times}) Runtime \<Rightarrow> DecoderInput \<Rightarrow> string \<Rightarrow> 'n Decoder \<Rightarrow> 'n Decoder" where
  "onDataHandler rt inp chunk st =
     (if resolved st then st
      else
        (let lines = split_nl (buffer st @ chunk)
         in process_lines rt inp (butlast lines) (st \<lparr> buffer := last lines \<rparr>)))"

definition onEndHandler ::
  "('n::{zero,plus,times}) Runtime \<Rightarrow> DecoderInput \<Rightarrow> 'n Decoder \<Rightarrow> 'n Decoder" where
  "onEndHandler rt inp st =
     (let st1 = (if trim (buffer st) \<noteq> [] then processLine rt inp (buffer st) st else st)
      in if \<not> resolved st1 then finalize rt inp st1 else st1)"

definition onErrorHandler :: "string \<Rightarrow> 'n Decoder \<Rightarrow> 'n Decoder" where
  "onErrorHandler msg st =
     (if resolved st then st
      else st \<lparr> resolved := True,
                detached := Suc (detached st),
                settled := settled st @ [Rejected msg] \<rparr>)"

text \<open>The events of the \<open>Readable\<close> the three handlers are wired to. \<open>deliver\<close> runs the
  handler of one event; \<open>run_decoder\<close> runs a whole sequence. The handlers are run
  whether or not \<open>detachListeners\<close> has been called, so every statement about
  \<open>run_decoder\<close> also covers events that reach a handler after the promise is settled.\<close>

datatype stream_event = Data string | End | Error string

fun deliver ::
  "('n::{zero,plus,times}) Runtime \<Rightarrow> DecoderInput \<Rightarrow> stream_event \<Rightarrow> 'n Decoder \<Rightarrow> 'n Decoder" where
  "deliver rt inp (Data chunk) st = onDataHandler rt inp chunk st"
| "deliver rt inp End st = onEndHandler rt inp st"
| "deliver rt inp (Error msg) st = onErrorHandler msg st"

fun run_decoder ::
  "('n::{zero,plus,times}) Runtime \<Rightarrow> DecoderInput \<Rightarrow> stream_event list \<Rightarrow> 'n Decoder \<Rightarrow> 'n Decoder" where
  "run_decoder rt inp [] st = st"
| "run_decoder rt inp (e # es) st = run_decoder rt inp es (deliver rt inp e st)"


section \<open>Argument builders (getOneDispatchArgs, getOneInteractArgs)\<close>

datatype BrainCliMode = Dispatch | Interact

datatype TaskMode = Ask | Act

text \<open>\<open>AnthropicBrainCliConfig\<close>: the binary, the model string, the price table of the
  spec and the two tool lists.\<close>

record AnthropicBrainCliConfig =
  binary :: string
  model :: string
  spec :: BrainSpecCash
  tools_ask :: "string list"
  tools_act :: "string list"

text \<open>\<open>input.series?.exid\<close> as a condition: a series with a non-empty identifier.\<close>

definition resume_args :: "BrainSeries option \<Rightarrow> string list" where
  "resume_args se =
     (case se of
        None \<Rightarrow> []
      | Some s \<Rightarrow>
         (case series_exid s of
            None \<Rightarrow> []
          | Some x \<Rightarrow> if x = [] then [] else [''--resume'', x]))"

definition getOneDispatchArgs ::
  "AnthropicBrainCliConfig \<Rightarrow> TaskMode \<Rightarrow> BrainSeries option \<Rightarrow> string list" where
  "getOneDispatchArgs config taskMode se =
     [''-p'', ''--model'', model config, ''--output-format'', ''stream-json'',
      ''--input-format'', ''stream-json'', ''--verbose''] @
     [''--allowedTools'',
      join '','' (case taskMode of Ask \<Rightarrow> tools_ask config | Act \<Rightarrow> tools_act config)] @
     resume_args se"

definition getOneInteractArgs ::
  "AnthropicBrainCliConfig \<Rightarrow> BrainSeries option \<Rightarrow> string list" where
  "getOneInteractArgs config se = [''--model'', model config] @ resume_args se"


section \<open>The handle (genBrainCli.ts)\<close>

text \<open>
  A process object (\<open>ChildProcess\<close> or pty) is identified by the order of its spawn;
  the same number stands for its pid. \<open>spawn\<close> is taken to succeed.

  The closure variables of \<open>genBrainCli\<close> form the record \<open>Handle\<close>. Its field \<open>trace\<close>
  lists, in order, what crosses the handle's boundary: the calls it makes on a process
  (spawn, kill, write, resize), the listener callbacks it fires, and the exit
  notifications it receives (\<open>Exited\<close>, recorded when the exit listener wired by
  \<open>wireChildProcessHooks\<close>/\<open>wirePtyProcessHooks\<close> starts to run).
\<close>

record ExitInfo =
  code :: int
  signal :: "string option"

datatype payload = UserMessage string "string option" | Raw string

datatype action =
    Spawn nat string "string list"
  | PtySpawn nat string "string list"
  | Kill nat
  | PtyKill nat
  | StdinWrite nat payload
  | PtyWrite nat string
  | PtyResize nat nat nat
  | DataCallback nat string
  | ExitCallback nat ExitInfo
  | Exited nat

record Instance =
  pid :: nat
  mode :: BrainCliMode

record Handle =
  inst :: "Instance option"
  memory_series :: "BrainSeries option"
  lastTaskMode :: "TaskMode option"
  childProcess :: "nat option"
  ptyProcess :: "nat option"
  dataListeners :: "nat list"
  exitListeners :: "nat list"
  next_proc :: nat
  trace :: "action list"

definition handle_init :: Handle where
  "handle_init =
     \<lparr> inst = None, memory_series = None, lastTaskMode = None,
       childProcess = None, ptyProcess = None,
       dataListeners = [], exitListeners = [], next_proc = 0, trace = [] \<rparr>"

text \<open>The data listeners wired on a process's output: every registered callback gets
  the text.\<close>

definition on_data :: "string \<Rightarrow> Handle \<Rightarrow> Handle" where
  "on_data text h = h \<lparr> trace := trace h @ map (\<lambda>cb. DataCallback cb text) (dataListeners h) \<rparr>"

text \<open>The exit listener \<open>wireChildProcessHooks\<close> wires on the child process \<open>proc\<close>.\<close>

definition on_child_exit :: "nat \<Rightarrow> int option \<Rightarrow> string option \<Rightarrow> Handle \<Rightarrow> Handle" where
  "on_child_exit proc c sig h =
     (let h1 = h \<lparr> trace := trace h @ [Exited proc] \<rparr> in
      if childProcess h1 \<noteq> Some proc then h1
      else
        (let info = \<lparr> code = nullish_or c 1, signal = sig \<rparr>
         in h1 \<lparr> inst := None,
                 childProcess := None,
                 trace := trace h1 @ map (\<lambda>cb. ExitCallback cb info) (exitListeners h1) \<rparr>))"

text \<open>The exit listener \<open>wirePtyProcessHooks\<close> wires on the pty process \<open>proc\<close>.\<close>

definition on_pty_exit :: "nat \<Rightarrow> int \<Rightarrow> nat option \<Rightarrow> Handle \<Rightarrow> Handle" where
  "on_pty_exit proc exitCode sig h =
     (let h1 = h \<lparr> trace := trace h @ [Exited proc] \<rparr> in
      if ptyProcess h1 \<noteq> Some proc then h1
      else
        (let info = \<lparr> code = exitCode, signal = map_option string_of_nat sig \<rparr>
         in h1 \<lparr> inst := None,
                 ptyProcess := None,
                 trace := trace h1 @ map (\<lambda>cb. ExitCallback cb info) (exitListeners h1) \<rparr>))"

text \<open>\<open>killCurrentProcess\<close>: signals whichever process references are stored, and clears
  \<open>instance\<close> only.\<close>

definition kill_requests :: "Handle \<Rightarrow> action list" where
  "kill_requests h =
     (case childProcess h of None \<Rightarrow> [] | Some c \<Rightarrow> [Kill c]) @
     (case ptyProcess h of None \<Rightarrow> [] | Some p \<Rightarrow> [PtyKill p])"

definition killCurrentProcess :: "Handle \<Rightarrow> Handle" where
  "killCurrentProcess h = h \<lparr> trace := trace h @ kill_requests h, inst := None \<rparr>"

text \<open>\<open>executor.boot\<close>. The dispatch branch runs without a suspension point. The interact
  branch computes its arguments, suspends once on the dynamic import of the pty library,
  and spawns on resumption: \<open>boot_interact_spawn\<close> is that second half, and \<open>boot\<close> is the
  run in which no other listener runs during the suspension.\<close>

definition boot_dispatch :: "AnthropicBrainCliConfig \<Rightarrow> Handle \<Rightarrow> Handle" where
  "boot_dispatch config h =
     (let h1 = killCurrentProcess h;
          taskMode = nullish_or (lastTaskMode h1) Ask;
          args = getOneDispatchArgs config taskMode (memory_series h1);
          p = next_proc h1
      in h1 \<lparr> lastTaskMode := Some taskMode,
              childProcess := Some p,
              next_proc := Suc p,
              trace := trace h1 @ [Spawn p (binary config) args],
              inst := Some \<lparr> pid = p, mode = Dispatch \<rparr> \<rparr>)"

definition boot_interact_spawn ::
  "AnthropicBrainCliConfig \<Rightarrow> string list \<Rightarrow> Handle \<Rightarrow> Handle" where
  "boot_interact_spawn config args h =
     (let p = next_proc h
      in h \<lparr> ptyProcess := Some p,
             next_proc := Suc p,
             trace := trace h @ [PtySpawn p (binary config) args],
             inst := Some \<lparr> pid = p, mode = Interact \<rparr> \<rparr>)"

definition boot_interact :: "AnthropicBrainCliConfig \<Rightarrow> Handle \<Rightarrow> Handle" where
  "boot_interact config h =
     (let h1 = killCurrentProcess h;
          args = getOneInteractArgs config (memory_series h1)
      in boot_interact_spawn config args h1)"

definition boot :: "AnthropicBrainCliConfig \<Rightarrow> BrainCliMode \<Rightarrow> Handle \<Rightarrow> Handle" where
  "boot config m h = (case m of Dispatch \<Rightarrow> boot_dispatch config h
                              | Interact \<Rightarrow> boot_interact config h)"

text \<open>Errors thrown by the handle.\<close>

datatype error = UnexpectedCodePathError string | BadRequestError string

text \<open>
  \<open>ask\<close> and \<open>act\<close> have the same body up to the task mode and the verb of their
  messages; \<open>dispatch_task\<close> is that body. \<open>stdout\<close> lists the events the process's
  output stream emits while the call waits for the decoder. The result is \<open>Inl\<close> for a
  thrown error or a rejected promise, \<open>Inr None\<close> when the decoder never settles, and
  \<open>Inr (Some out)\<close> for the returned output.
\<close>

definition verb :: "TaskMode \<Rightarrow> string" where
  "verb t = (case t of Ask \<Rightarrow> ''ask'' | Act \<Rightarrow> ''act'')"

definition dispatch_task ::
  "('n::{zero,plus,times}) Runtime \<Rightarrow> AnthropicBrainCliConfig \<Rightarrow> TaskMode \<Rightarrow> string
     \<Rightarrow> stream_event list \<Rightarrow> Handle \<Rightarrow> (error + 'n BrainOutput option) \<times> Handle" where
  "dispatch_task rt config t prompt_text stdout h =
     (case inst h of
        None \<Rightarrow>
          (Inl (UnexpectedCodePathError
                 (''cannot '' @ verb t @ '': no live process. call executor.boot first'')), h)
      | Some i \<Rightarrow>
          if mode i \<noteq> Dispatch then
            (Inl (UnexpectedCodePathError
                   (''cannot '' @ verb t @
                    '': handle is in interact mode. boot dispatch first'')), h)
          else
            (let h1 = (if lastTaskMode h \<noteq> Some t
                       then boot config Dispatch (h \<lparr> lastTaskMode := Some t \<rparr>) else h)
             in case childProcess h1 of
                  None \<Rightarrow> (Inl (UnexpectedCodePathError ''dispatch process has no stdin''), h1)
                | Some c \<Rightarrow>
                   (let msg = UserMessage prompt_text
                                (case memory_series h1 of None \<Rightarrow> None | Some s \<Rightarrow> series_exid s);
                        h2 = h1 \<lparr> trace := trace h1 @ [StdinWrite c msg] \<rparr>;
                        d = run_decoder rt
                              \<lparr> prompt = prompt_text, spec_cost_cash = spec config,
                                seriesPrior = memory_series h2 \<rparr>
                              stdout decoder_init
                    in case settled d of
                         [] \<Rightarrow> (Inr None, h2)
                       | Resolved out # _ \<Rightarrow>
                           (Inr (Some out), h2 \<lparr> memory_series := Some (series out) \<rparr>)
                       | Rejected m # _ \<Rightarrow>
                           (Inl (UnexpectedCodePathError
                                  ''stream error while read of brain output''), h2))))"

definition ask ::
  "('n::{zero,plus,times}) Runtime \<Rightarrow> AnthropicBrainCliConfig \<Rightarrow> string
     \<Rightarrow> stream_event list \<Rightarrow> Handle \<Rightarrow> (error + 'n BrainOutput option) \<times> Handle" where
  "ask rt config prompt_text stdout h = dispatch_task rt config Ask prompt_text stdout h"

definition act ::
  "('n::{zero,plus,times}) Runtime \<Rightarrow> AnthropicBrainCliConfig \<Rightarrow> string
     \<Rightarrow> stream_event list \<Rightarrow> Handle \<Rightarrow> (error + 'n BrainOutput option) \<times> Handle" where
  "act rt config prompt_text stdout h = dispatch_task rt config Act prompt_text stdout h"

text \<open>\<open>executor.kill\<close>, \<open>terminal.write\<close>, \<open>terminal.resize\<close>, \<open>terminal.onData\<close>,
  \<open>terminal.onExit\<close> and the setter of \<open>memory.series\<close>.\<close>

definition kill :: "Handle \<Rightarrow> Handle" where
  "kill h = killCurrentProcess h"

definition terminal_write :: "string \<Rightarrow> Handle \<Rightarrow> (error + unit) \<times> Handle" where
  "terminal_write data h =
     (case inst h of
        None \<Rightarrow> (Inl (UnexpectedCodePathError ''cannot write: no live process''), h)
      | Some i \<Rightarrow>
         (case (if mode i = Dispatch then childProcess h else None) of
            Some c \<Rightarrow> (Inr (), h \<lparr> trace := trace h @ [StdinWrite c (Raw data)] \<rparr>)
          | None \<Rightarrow>
             (case (if mode i = Interact then ptyProcess h else None) of
                Some p \<Rightarrow> (Inr (), h \<lparr> trace := trace h @ [PtyWrite p data] \<rparr>)
              | None \<Rightarrow>
                 (Inl (UnexpectedCodePathError
                        ''cannot write: process handle not available''), h))))"

definition terminal_resize :: "nat \<Rightarrow> nat \<Rightarrow> Handle \<Rightarrow> Handle" where
  "terminal_resize cols rows h =
     (case ptyProcess h of
        None \<Rightarrow> h
      | Some p \<Rightarrow> h \<lparr> trace := trace h @ [PtyResize p cols rows] \<rparr>)"

definition terminal_onData :: "nat \<Rightarrow> Handle \<Rightarrow> Handle" where
  "terminal_onData cb h = h \<lparr> dataListeners := dataListeners h @ [cb] \<rparr>"

definition terminal_onExit :: "nat \<Rightarrow> Handle \<Rightarrow> Handle" where
  "terminal_onExit cb h = h \<lparr> exitListeners := exitListeners h @ [cb] \<rparr>"

definition memory_set_series :: "BrainSeries option \<Rightarrow> Handle \<Rightarrow> Handle" where
  "memory_set_series v h = h \<lparr> memory_series := v \<rparr>"

text \<open>A caller's use of the handle, as a sequence of calls and of notifications from
  the processes; \<open>run_calls\<close> threads the handle's state through it, dropping the
  return values.\<close>

datatype call =
    CallBoot BrainCliMode
  | CallKill
  | CallAsk string "stream_event list"
  | CallAct string "stream_event list"
  | CallWrite string
  | CallResize nat nat
  | CallOnData nat
  | CallOnExit nat
  | CallSetSeries "BrainSeries option"
  | NotifyChildExit nat "int option" "string option"
  | NotifyPtyExit nat int "nat option"
  | NotifyData string

fun do_call ::
  "('n::{zero,plus,times}) Runtime \<Rightarrow> AnthropicBrainCliConfig \<Rightarrow> call \<Rightarrow> Handle \<Rightarrow> Handle" where
  "do_call rt config (CallBoot m) h = boot config m h"
| "do_call rt config CallKill h = kill h"
| "do_call rt config (CallAsk p stdout) h = snd (ask rt config p stdout h)"
| "do_call rt config (CallAct p stdout) h = snd (act rt config p stdout h)"
| "do_call rt config (CallWrite d) h = snd (terminal_write d h)"
| "do_call rt config (CallResize c r) h = terminal_resize c r h"
| "do_call rt config (CallOnData cb) h = terminal_onData cb h"
| "do_call rt config (CallOnExit cb) h = terminal_onExit cb h"
| "do_call rt config (CallSetSeries v) h = memory_set_series v h"
| "do_call rt config (NotifyChildExit p c s) h = on_child_exit p c s h"
| "do_call rt config (NotifyPtyExit p c s) h = on_pty_exit p c s h"
| "do_call rt config (NotifyData text) h = on_data text h"

fun run_calls ::
  "('n::{zero,plus,times}) Runtime \<Rightarrow> AnthropicBrainCliConfig \<Rightarrow> call list \<Rightarrow> Handle \<Rightarrow> Handle" where
  "run_calls rt config [] h = h"
| "run_calls rt config (c # cs) h = run_calls rt config cs (do_call rt config c h)"

fun is_boot :: "call \<Rightarrow> bool" where
  "is_boot (CallBoot m) = True"
| "is_boot c = False"





section \<open>Reading a stream as a whole\<close>

text \<open>
  The notions the statements about the decoder are phrased in, defined on the lines of
  a stream rather than on the decoder's variables: the envelope a line decodes to,
  whether it is a \<open>result\<close> envelope, the text it contributes, and the session id it
  carries for the decoder (the \<open>result\<close>, \<open>assistant\<close> and \<open>system\<close> envelopes are the
  ones whose \<open>session_id\<close> is read).
\<close>

definition line_envelope :: "'n Runtime \<Rightarrow> string \<Rightarrow> 'n Envelope option" where
  "line_envelope rt l = (if trim l = [] then None else JSON_parse rt (trim l))"

definition is_result_line :: "'n Runtime \<Rightarrow> string \<Rightarrow> bool" where
  "is_result_line rt l =
     (case line_envelope rt l of None \<Rightarrow> False | Some ev \<Rightarrow> event_type ev = Some ''result'')"




definition envelope_session_id :: "'n Envelope \<Rightarrow> string option" where
  "envelope_session_id ev =
     (if event_type ev = Some ''result'' \<or> event_type ev = Some ''assistant'' \<or>
         event_type ev = Some ''system''
      then session_id ev else None)"

definition line_session_id :: "'n Runtime \<Rightarrow> string \<Rightarrow> string option" where
  "line_session_id rt l =
     (case line_envelope rt l of None \<Rightarrow> None | Some ev \<Rightarrow> envelope_session_id ev)"





section \<open>Example data\<close>

text \<open>
  Concrete inputs on which the statements below are instantiated. The example runtime
  decodes exactly the example lines; its numbers are rationals.
\<close>

definition exchange1 :: BrainExchange where
  "exchange1 = \<lparr> exchange_hash = ''exchange-1-hash'', exchange_input = ''first prompt'',
                 exchange_output = ''first output'', exchange_exid = None \<rparr>"

definition exchange2 :: BrainExchange where
  "exchange2 = \<lparr> exchange_hash = ''exchange-2-hash'', exchange_input = ''second prompt'',
                 exchange_output = ''second output'', exchange_exid = None \<rparr>"

definition series_same :: BrainSeries where
  "series_same =
     \<lparr> series_hash = ''series-hash'', series_exid = Some ''sess-same'',
       episodes = [\<lparr> episode_hash = ''episode-1-hash'', episode_exid = Some ''sess-same'',
                     exchanges = [exchange1] \<rparr>] \<rparr>"

definition series_old :: BrainSeries where
  "series_old =
     \<lparr> series_hash = ''series-hash'', series_exid = Some ''sess-old'',
       episodes = [\<lparr> episode_hash = ''episode-1-hash'', episode_exid = Some ''sess-old'',
                     exchanges = [exchange1] \<rparr>] \<rparr>"

definition envelope_blank :: "rat Envelope" where
  "envelope_blank =
     \<lparr> event_type = None, session_id = None, cost_usd = None, duration_ms = None,
       result = None, usage = None, total_cost = None, message = None, event = None,
       subtype = None \<rparr>"

definition line_system :: string where
  \<open>line_system = ''{"type":"system","session_id":"s1"}''\<close>

definition line_assistant :: string where
  \<open>line_assistant =
     ''{"type":"assistant","message":{"content":[{"type":"text","text":"partial "}]}}''\<close>

definition line_delta :: string where
  \<open>line_delta =
     ''{"type":"stream_event","event":{"type":"content_block_delta","delta":{"type":"text_delta","text":"output"}}}''\<close>

definition line_result :: string where
  \<open>line_result =
     ''{"type":"result","result":"ok","session_id":"s1","cost_usd":0.003,"duration_ms":1234}''\<close>

definition parse_example :: "string \<Rightarrow> rat Envelope option" where
  "parse_example s =
     (if s = line_system then
        Some (envelope_blank \<lparr> event_type := Some ''system'', session_id := Some ''s1'' \<rparr>)
      else if s = line_assistant then
        Some (envelope_blank
               \<lparr> event_type := Some ''assistant'',
                 message := Some \<lparr> message_content =
                                     Some [\<lparr> block_type = ''text'',
                                             block_text = Some ''partial '' \<rparr>],
                                   message_usage = None \<rparr> \<rparr>)
      else if s = line_delta then
        Some (envelope_blank
               \<lparr> event_type := Some ''stream_event'',
                 event := Some \<lparr> inner_type = Some ''content_block_delta'',
                                 inner_message = None,
                                 inner_delta = Some \<lparr> delta_type = Some ''text_delta'',
                                                      delta_text = Some ''output'' \<rparr>,
                                 inner_usage = None \<rparr> \<rparr>)
      else if s = line_result then
        Some (envelope_blank
               \<lparr> event_type := Some ''result'', session_id := Some ''s1'',
                 cost_usd := Some (3 / 1000), duration_ms := Some 1234,
                 result := Some ''ok'' \<rparr>)
      else None)"

definition runtime_example :: "rat Runtime" where
  "runtime_example =
     \<lparr> JSON_parse = parse_example,
       sha256 = (\<lambda>s. ''sha256('' @ s @ '')''),
       parseFloat = (\<lambda>s. if s = ''0.000003'' then Some (3 / 1000000)
                          else if s = ''0.000015'' then Some (15 / 1000000)
                          else if s = ''0.0000003'' then Some (3 / 10000000)
                          else if s = ''0.00000375'' then Some (375 / 100000000)
                          else None),
       toFixed10 = (\<lambda>v. if v = 3 / 1000 then ''0.0030000000''
                         else if v = 18675 / 10000000 then ''0.0018675000''
                         else ''other'') \<rparr>"

definition cash_example :: BrainSpecCash where
  "cash_example =
     \<lparr> cash_input = ''$0.000003'', cash_output = ''$0.000015'',
       cash_cache_get = ''$0.0000003'', cash_cache_set = ''$0.00000375'' \<rparr>"

definition input_example :: DecoderInput where
  "input_example = \<lparr> prompt = ''test prompt'', spec_cost_cash = cash_example, seriesPrior = None \<rparr>"

definition counted_example :: "rat Decoder" where
  "counted_example =
     decoder_init \<lparr> tokensInput := 500, tokensOutput := 20,
                    tokensCacheGet := 100, tokensCacheSet := 10 \<rparr>"

definition config_example :: AnthropicBrainCliConfig where
  "config_example =
     \<lparr> binary = ''claude'', model = ''claude-haiku-4-5'', spec = cash_example,
       tools_ask = [''Read'', ''Grep'', ''Glob'', ''WebSearch'', ''WebFetch''],
       tools_act = [''Read'', ''Grep'', ''Glob'', ''Edit'', ''Write'', ''Bash'',
                    ''WebSearch'', ''WebFetch''] \<rparr>"


section \<open>Facts about the decoder\<close>

subsection \<open>Frame facts\<close>

lemma take_usage_frame [simp]:
  "resolved (take_usage u st) = resolved st"
  "settled (take_usage u st) = settled st"
  "detached (take_usage u st) = detached st"
  "buffer (take_usage u st) = buffer st"
  "sessionId (take_usage u st) = sessionId st"
  "textAccumulated (take_usage u st) = textAccumulated st"
  "resultText (take_usage u st) = resultText st"
  "costUsd (take_usage u st) = costUsd st"
  by (simp_all add: take_usage_def)

lemma processStreamEvent_frame [simp]:
  "resolved (processStreamEvent ev st) = resolved st"
  "settled (processStreamEvent ev st) = settled st"
  "detached (processStreamEvent ev st) = detached st"
  "buffer (processStreamEvent ev st) = buffer st"
  "sessionId (processStreamEvent ev st) = sessionId st"
  "resultText (processStreamEvent ev st) = resultText st"
  by (simp_all add: processStreamEvent_def split: option.splits)

lemma finalize_resolved [simp]: "resolved (finalize rt inp st)"
  by (simp add: finalize_def Let_def)

lemma finalize_frame [simp]:
  "buffer (finalize rt inp st) = buffer st"
  "sessionId (finalize rt inp st) = sessionId st"
  "textAccumulated (finalize rt inp st) = textAccumulated st"
  by (simp_all add: finalize_def Let_def)



lemma take_result_frame [simp]:
  "resolved (take_result ev st) = resolved st"
  "settled (take_result ev st) = settled st"
  "detached (take_result ev st) = detached st"
  "buffer (take_result ev st) = buffer st"
  "sessionId (take_result ev st) = nullish (session_id ev) (sessionId st)"
  "textAccumulated (take_result ev st) = textAccumulated st"
  by (simp_all add: take_result_def Let_def split: option.splits)

lemma take_assistant_frame [simp]:
  "resolved (take_assistant ev st) = resolved st"
  "settled (take_assistant ev st) = settled st"
  "detached (take_assistant ev st) = detached st"
  "buffer (take_assistant ev st) = buffer st"
  "resultText (take_assistant ev st) = resultText st"
  "sessionId (take_assistant ev st) = nullish (session_id ev) (sessionId st)"
  by (simp_all add: take_assistant_def Let_def split: option.splits)

lemma take_system_frame [simp]:
  "resolved (take_system ev st) = resolved st"
  "settled (take_system ev st) = settled st"
  "detached (take_system ev st) = detached st"
  "buffer (take_system ev st) = buffer st"
  "resultText (take_system ev st) = resultText st"
  "textAccumulated (take_system ev st) = textAccumulated st"
  "sessionId (take_system ev st) = nullish (session_id ev) (sessionId st)"
  by (simp_all add: take_system_def Let_def)



lemma processLine_buffer [simp]: "buffer (processLine rt inp l st) = buffer st"
  by (simp add: processLine_def Let_def split: option.splits)




subsection \<open>Lines\<close>

lemma processLine_result: "is_result_line rt l \<Longrightarrow> resolved (processLine rt inp l st)"
  by (auto simp add: is_result_line_def line_envelope_def processLine_def Let_def
      split: option.splits if_splits)



lemma processLine_sessionId:
  "sessionId (processLine rt inp l st) = nullish (line_session_id rt l) (sessionId st)"
  by (auto simp add: line_session_id_def line_envelope_def processLine_def Let_def
      envelope_session_id_def nullish_def
      split: option.splits if_splits)



subsection \<open>Splitting the stream into lines\<close>







subsection \<open>The loop over lines\<close>


lemma process_lines_resolves:
  "\<exists>l \<in> set ls. is_result_line rt l \<Longrightarrow> resolved (process_lines rt inp ls st)"
proof (induction ls arbitrary: st)
  case Nil
  then show ?case by simp
next
  case (Cons l ls)
  show ?case
  proof (cases "resolved (processLine rt inp l st)")
    case True
    then show ?thesis by (simp add: Let_def)
  next
    case False
    then have "\<not> is_result_line rt l"
      using processLine_result by blast
    with Cons.prems have "\<exists>l \<in> set ls. is_result_line rt l" by auto
    with Cons.IH False show ?thesis by (simp add: Let_def)
  qed
qed

lemma process_lines_buffer [simp]: "buffer (process_lines rt inp ls st) = buffer st"
  by (induction ls arbitrary: st) (simp_all add: Let_def)


subsection \<open>Handlers\<close>














subsection \<open>Streams without a result envelope\<close>






subsection \<open>The captured session id\<close>

lemma nullish_keeps_Some: "d \<noteq> None \<Longrightarrow> nullish v d \<noteq> None"
  by (cases v) (simp_all add: nullish_def)

lemma processLine_keeps_session:
  "sessionId st \<noteq> None \<Longrightarrow> sessionId (processLine rt inp l st) \<noteq> None"
  by (simp add: processLine_sessionId nullish_keeps_Some del: not_None_eq)

lemma process_lines_keeps_session:
  "sessionId st \<noteq> None \<Longrightarrow> sessionId (process_lines rt inp ls st) \<noteq> None"
  by (induction ls arbitrary: st)
     (simp_all add: Let_def processLine_keeps_session del: not_None_eq)

lemma deliver_keeps_session:
  "sessionId st \<noteq> None \<Longrightarrow> sessionId (deliver rt inp e st) \<noteq> None"
proof (cases e)
  case (Data chunk)
  assume s: "sessionId st \<noteq> None"
  then have "sessionId (st \<lparr> buffer := b \<rparr>) \<noteq> None" for b
    by (simp del: not_None_eq)
  with s Data show ?thesis
    by (simp add: onDataHandler_def Let_def process_lines_keeps_session del: not_None_eq)
next
  case End
  assume "sessionId st \<noteq> None"
  with End show ?thesis
    by (simp add: onEndHandler_def Let_def processLine_keeps_session del: not_None_eq)
next
  case (Error msg)
  assume "sessionId st \<noteq> None"
  with Error show ?thesis
    by (simp add: onErrorHandler_def del: not_None_eq)
qed

lemma run_decoder_keeps_session:
  "sessionId st \<noteq> None \<Longrightarrow> sessionId (run_decoder rt inp es st) \<noteq> None"
  by (induction es arbitrary: st) (simp_all add: deliver_keeps_session del: not_None_eq)

subsection \<open>Cost\<close>

lemma take_result_costUsd:
  "costUsd (take_result ev st) =
     (case cost_usd ev of
        Some c \<Rightarrow> Some c
      | None \<Rightarrow> (case costUsd st of Some c \<Rightarrow> Some c | None \<Rightarrow> total_cost ev))"
  by (simp add: take_result_def Let_def nullish_def split: option.splits)

lemma iso_price_strips_currency:
  "\<forall>c \<in> set d. price_char c \<Longrightarrow>
   getOneNumericFromIsoPrice rt (''$'' @ d) = nullish_or (parseFloat rt d) 0"
  by (simp add: getOneNumericFromIsoPrice_def price_char_def Let_def filter_id_conv)

subsection \<open>A result envelope in the trailing buffer\<close>




section \<open>Facts about reconciliation\<close>

lemma neither_case_iff:
  "(\<not> isSameContextWindow c latest sid \<and> \<not> isCompactionSplit False c latest sid) =
   (case sid of
      None \<Rightarrow> True
    | Some s \<Rightarrow>
       (case latest of
          None \<Rightarrow> True
        | Some e \<Rightarrow>
           (case episode_exid e of
              None \<Rightarrow> True
            | Some x \<Rightarrow> if c then x \<noteq> s \<and> \<not> startsWith x (s @ ''/'') else x \<noteq> s)))"
  by (auto simp add: isSameContextWindow_def isCompactionSplit_def split: option.splits)


section \<open>Facts about the handle\<close>

lemma no_boot_keeps_instance_null:
  "inst h = None \<Longrightarrow> \<not> is_boot c \<Longrightarrow> inst (do_call rt config c h) = None"
  by (cases c)
     (simp_all add: kill_def killCurrentProcess_def ask_def act_def dispatch_task_def
        terminal_write_def terminal_resize_def terminal_onData_def terminal_onExit_def
        memory_set_series_def on_child_exit_def on_pty_exit_def on_data_def Let_def
        split: option.splits)

lemma never_booted_instance_null:
  "inst h = None \<Longrightarrow> \<forall>c \<in> set cs. \<not> is_boot c \<Longrightarrow> inst (run_calls rt config cs h) = None"
  by (induction cs arbitrary: h) (simp_all add: no_boot_keeps_instance_null)



text \<open>A reboot never touches the durable series.\<close>

lemma boot_keeps_series: "memory_series (boot config m h) = memory_series h"
  by (cases m)
     (simp_all add: boot_def boot_dispatch_def boot_interact_def boot_interact_spawn_def
        killCurrentProcess_def Let_def)

text \<open>After a reboot of the same kind the superseded process is no longer the stored
  reference, so its exit notification is dropped by the guard: only its receipt shows
  in the trace.\<close>

lemma dispatch_reboot_discards_stale_exit:
  assumes "childProcess h = Some c" and "c < next_proc h"
  shows "on_child_exit c ec sig (boot config Dispatch h) =
         (boot config Dispatch h) \<lparr> trace := trace (boot config Dispatch h) @ [Exited c] \<rparr>"
  using assms
  by (simp add: on_child_exit_def boot_def boot_dispatch_def killCurrentProcess_def Let_def)

lemma interact_reboot_discards_stale_exit:
  assumes "ptyProcess h = Some c" and "c < next_proc h"
  shows "on_pty_exit c ec sig (boot config Interact h) =
         (boot config Interact h) \<lparr> trace := trace (boot config Interact h) @ [Exited c] \<rparr>"
  using assms
  by (simp add: on_pty_exit_def boot_def boot_interact_def boot_interact_spawn_def
      killCurrentProcess_def Let_def)

section \<open>The claims\<close>

subsection \<open>Stream decoder\<close>





text \<open>
  \<^bold>\<open>C10.\<close> The captured session id is never reset. Once the decoder holds a session id,
  it holds one after any sequence of stream events; and a line whose envelope has no
  \<open>session_id\<close> field leaves the captured value as it is.
\<close>

theorem captured_session_id_is_never_reset:
  assumes "sessionId st = Some s"
  shows "(\<exists>s'. sessionId (run_decoder rt inp es st) = Some s') \<and>
         (\<forall>ev. line_envelope rt l = Some ev \<and> session_id ev = None \<longrightarrow>
               sessionId (processLine rt inp l st) = Some s)"
proof -
  from assms have "sessionId st \<noteq> None" by simp
  from run_decoder_keeps_session [OF this, of rt inp es]
  have a: "\<exists>s'. sessionId (run_decoder rt inp es st) = Some s'"
    by blast
  have b: "sessionId (processLine rt inp l st) = Some s"
    if "line_envelope rt l = Some ev" and "session_id ev = None" for ev
    using that assms
    by (simp add: processLine_sessionId line_session_id_def envelope_session_id_def nullish_def)
  from a b show ?thesis by blast
qed

theorem captured_session_id_witness:
  "sessionId (decoder_init \<lparr> sessionId := Some ''s1'' \<rparr> :: rat Decoder) = Some ''s1'' \<and>
   (\<exists>s'. sessionId (run_decoder runtime_example input_example
                      [Data (line_assistant @ [CHR 0x0A]), Data line_delta, End]
                      (decoder_init \<lparr> sessionId := Some ''s1'' \<rparr>)) = Some s') \<and>
   line_envelope runtime_example line_assistant \<noteq> None \<and>
   session_id (the (line_envelope runtime_example line_assistant)) = None \<and>
   sessionId (processLine runtime_example input_example line_assistant
                (decoder_init \<lparr> sessionId := Some ''s1'' \<rparr>)) = Some ''s1''"
proof -
  let ?st = "decoder_init \<lparr> sessionId := Some ''s1'' \<rparr> :: rat Decoder"
  have a: "sessionId ?st = Some ''s1''"
    by simp
  have e: "line_envelope runtime_example line_assistant =
             Some (envelope_blank
                    \<lparr> event_type := Some ''assistant'',
                      message := Some \<lparr> message_content =
                                          Some [\<lparr> block_type = ''text'',
                                                  block_text = Some ''partial '' \<rparr>],
                                        message_usage = None \<rparr> \<rparr>)"
    by (simp add: line_envelope_def runtime_example_def trim_def js_whitespace_def
        parse_example_def line_system_def line_assistant_def)
  have n: "session_id (the (line_envelope runtime_example line_assistant)) = None"
    by (simp add: e envelope_blank_def)
  from captured_session_id_is_never_reset
         [OF a, of runtime_example input_example
            "[Data (line_assistant @ [CHR 0x0A]), Data line_delta, End]" line_assistant]
  show ?thesis
    using a e n by auto
qed

subsection \<open>Accounting\<close>

text \<open>
  \<^bold>\<open>C5.\<close> Every finalization that resolves the promise reports as total cash cost the
  vendor-reported cost if one was captured, and otherwise the sum of the four category
  costs, each the rate parsed from the spec's price string times the token count of its
  category (input, output, cache read, cache write); the per-category costs are
  reported alongside. Every reported cost is the number as \<open>getOneIsoPrice\<close> prints it.
  The rate of a price string made of a dollar sign and a decimal \<open>d\<close> is what
  \<open>parseFloat\<close> reads from \<open>d\<close> (zero for \<open>NaN\<close>).
\<close>

theorem total_cost_is_vendor_cost_or_sum_of_categories:
  assumes "\<not> resolved st"
    and "costInput = getOneNumericFromIsoPrice rt (cash_input (spec_cost_cash inp)) * tokensInput st"
    and "costOutput = getOneNumericFromIsoPrice rt (cash_output (spec_cost_cash inp)) * tokensOutput st"
    and "costCacheGet =
           getOneNumericFromIsoPrice rt (cash_cache_get (spec_cost_cash inp)) * tokensCacheGet st"
    and "costCacheSet =
           getOneNumericFromIsoPrice rt (cash_cache_set (spec_cost_cash inp)) * tokensCacheSet st"
  shows "(\<exists>out. settled (finalize rt inp st) = settled st @ [Resolved out] \<and>
            cost_cash_total (metrics out) =
              getOneIsoPrice rt
                (case costUsd st of
                   Some vendor \<Rightarrow> vendor
                 | None \<Rightarrow> costInput + costOutput + costCacheGet + costCacheSet) \<and>
            cost_cash_deets_input (metrics out) = getOneIsoPrice rt costInput \<and>
            cost_cash_deets_output (metrics out) = getOneIsoPrice rt costOutput \<and>
            cost_cash_deets_cache_get (metrics out) = getOneIsoPrice rt costCacheGet \<and>
            cost_cash_deets_cache_set (metrics out) = getOneIsoPrice rt costCacheSet) \<and>
         ((\<forall>c \<in> set d. price_char c) \<longrightarrow>
            getOneNumericFromIsoPrice rt (''$'' @ d) =
              (case parseFloat rt d of None \<Rightarrow> 0 | Some v \<Rightarrow> v))"
proof -
  have "getOneNumericFromIsoPrice rt (''$'' @ d) = (case parseFloat rt d of None \<Rightarrow> 0 | Some v \<Rightarrow> v)"
    if "\<forall>c \<in> set d. price_char c"
    using iso_price_strips_currency [OF that, of rt] by (simp add: nullish_or_def)
  with assms show ?thesis
    by (simp add: finalize_def Let_def nullish_or_def split: option.splits)
qed

theorem total_cost_witness:
  "\<not> resolved counted_example \<and>
   \<not> resolved (counted_example \<lparr> costUsd := Some (3 / 1000) \<rparr>) \<and>
   (\<exists>out. settled (finalize runtime_example input_example counted_example) = [Resolved out] \<and>
          cost_cash_total (metrics out) = ''$0.0018675000'') \<and>
   (\<exists>out. settled (finalize runtime_example input_example
                    (counted_example \<lparr> costUsd := Some (3 / 1000) \<rparr>)) = [Resolved out] \<and>
          cost_cash_total (metrics out) = ''$0.0030000000'') \<and>
   getOneNumericFromIsoPrice runtime_example ''$0.000003'' = 3 / 1000000"
proof -
  have u: "\<not> resolved counted_example"
    "\<not> resolved (counted_example \<lparr> costUsd := Some (3 / 1000) \<rparr>)"
    by (simp_all add: counted_example_def decoder_init_def)
  have r: "getOneNumericFromIsoPrice runtime_example (cash_input (spec_cost_cash input_example)) =
             3 / 1000000"
    "getOneNumericFromIsoPrice runtime_example (cash_output (spec_cost_cash input_example)) =
             15 / 1000000"
    "getOneNumericFromIsoPrice runtime_example (cash_cache_get (spec_cost_cash input_example)) =
             3 / 10000000"
    "getOneNumericFromIsoPrice runtime_example (cash_cache_set (spec_cost_cash input_example)) =
             375 / 100000000"
    by (simp_all add: getOneNumericFromIsoPrice_def price_char_def runtime_example_def
        input_example_def cash_example_def nullish_or_def)
  have c: "tokensInput counted_example = 500" "tokensOutput counted_example = 20"
    "tokensCacheGet counted_example = 100" "tokensCacheSet counted_example = 10"
    "costUsd counted_example = None" "settled counted_example = []"
    by (simp_all add: counted_example_def decoder_init_def)
  have sum: "(3 / 1000000 :: rat) * 500 + 15 / 1000000 * 20 + 3 / 10000000 * 100 +
             375 / 100000000 * 10 = 18675 / 10000000"
    by simp
  have p: "\<forall>c \<in> set ''0.000003''. price_char c"
    by (simp add: price_char_def)
  have f: "parseFloat runtime_example ''0.000003'' = Some (3 / 1000000)"
    by (simp add: runtime_example_def)
  note t1 = total_cost_is_vendor_cost_or_sum_of_categories
              [OF u(1) refl refl refl refl, of runtime_example input_example "''0.000003''"]
  note t2 = total_cost_is_vendor_cost_or_sum_of_categories
              [OF u(2) refl refl refl refl, of runtime_example input_example "''0.000003''"]
  from t1
  have 1: "\<exists>out. settled (finalize runtime_example input_example counted_example) = [Resolved out] \<and>
          cost_cash_total (metrics out) = ''$0.0018675000''"
    unfolding r c sum by (auto simp add: getOneIsoPrice_def runtime_example_def)
  from t2
  have 2: "\<exists>out. settled (finalize runtime_example input_example
                    (counted_example \<lparr> costUsd := Some (3 / 1000) \<rparr>)) = [Resolved out] \<and>
          cost_cash_total (metrics out) = ''$0.0030000000''"
    by (auto simp add: c getOneIsoPrice_def runtime_example_def)
  from t1 p have 3: "getOneNumericFromIsoPrice runtime_example ''$0.000003'' = 3 / 1000000"
    unfolding f by simp
  from u 1 2 3 show ?thesis by blast
qed

subsection \<open>Session reconciliation\<close>

text \<open>
  \<^bold>\<open>C2.\<close> Compaction split. When the compaction flag is set, the session id is \<open>sid\<close>,
  and the latest episode of the prior series has the identifier \<open>sid\<close> or one that
  starts with \<open>sid\<close> followed by \<open>/\<close>, reconciliation appends one episode: the
  series has one episode more, the new episode's identifier is \<open>sid\<close>, \<open>/\<close> and the
  prior number of episodes in decimal, and its only exchange is the new one. (With the
  flag set the continuation case cannot apply.)
\<close>

theorem compaction_split_appends_suffixed_episode:
  assumes "episodes prior \<noteq> []"
    and "episode_exid (last (episodes prior)) = Some x"
    and "x = sid \<or> startsWith x (sid @ ''/'')"
    and "r = reconcile sha (Some prior) exchange (Some sid) True"
  shows "episodes (snd r) = episodes prior @ [fst r] \<and>
         length (episodes (snd r)) = length (episodes prior) + 1 \<and>
         episode_exid (fst r) = Some (sid @ ''/'' @ string_of_nat (length (episodes prior))) \<and>
         exchanges (fst r) = [exchange]"
  using assms
  by (auto simp add: reconcile_def Let_def episodesPrior_def episodeLatest_def
      isSameContextWindow_def isCompactionSplit_def template_def simp del: string_of_nat.simps)

theorem compaction_split_witness:
  "episodes series_same \<noteq> [] \<and>
   episode_exid (last (episodes series_same)) = Some ''sess-same'' \<and>
   episodes (snd (reconcile id (Some series_same) exchange2 (Some ''sess-same'') True)) =
     episodes series_same @
     [fst (reconcile id (Some series_same) exchange2 (Some ''sess-same'') True)] \<and>
   length (episodes (snd (reconcile id (Some series_same) exchange2 (Some ''sess-same'') True))) =
     2 \<and>
   episode_exid (fst (reconcile id (Some series_same) exchange2 (Some ''sess-same'') True)) =
     Some ''sess-same/1'' \<and>
   exchanges (fst (reconcile id (Some series_same) exchange2 (Some ''sess-same'') True)) =
     [exchange2]"
proof -
  have a: "episodes series_same \<noteq> []"
    by (simp add: series_same_def)
  have b: "episode_exid (last (episodes series_same)) = Some ''sess-same''"
    by (simp add: series_same_def)
  have len: "length (episodes series_same) = Suc 0"
    by (simp add: series_same_def)
  have n: "string_of_nat (Suc 0) = ''1''"
    by (simp add: digit_char_def)
  from compaction_split_appends_suffixed_episode
         [OF a b _ refl, of "''sess-same''" id exchange2]
  show ?thesis using a b by (simp add: len n del: string_of_nat.simps)
qed

text \<open>
  \<^bold>\<open>C3.\<close> Continuation. When the compaction flag is not set and the latest episode of
  the prior series has the observed session id \<open>sid\<close> as its identifier, reconciliation
  replaces that episode in place: the number of episodes is unchanged, the episode's
  exchanges are the prior ones followed by the new exchange, its identifier is
  unchanged, and its hash is recomputed from \<open>sid\<close> and the hashes of its exchanges.
\<close>

theorem continuation_extends_latest_episode:
  assumes "episodes prior \<noteq> []"
    and "episode_exid (last (episodes prior)) = Some sid"
    and "r = reconcile sha (Some prior) exchange (Some sid) False"
  shows "episodes (snd r) = butlast (episodes prior) @ [fst r] \<and>
         length (episodes (snd r)) = length (episodes prior) \<and>
         exchanges (fst r) = exchanges (last (episodes prior)) @ [exchange] \<and>
         length (exchanges (fst r)) = length (exchanges (last (episodes prior))) + 1 \<and>
         episode_exid (fst r) = episode_exid (last (episodes prior)) \<and>
         episode_hash (fst r) =
           sha (sid @ '':'' @ join '':'' (map exchange_hash (exchanges (fst r))))"
  using assms
  by (auto simp add: reconcile_def Let_def episodesPrior_def episodeLatest_def
      isSameContextWindow_def isCompactionSplit_def template_def simp del: string_of_nat.simps)

theorem continuation_witness:
  "episodes series_same \<noteq> [] \<and>
   episode_exid (last (episodes series_same)) = Some ''sess-same'' \<and>
   episodes (snd (reconcile id (Some series_same) exchange2 (Some ''sess-same'') False)) =
     [fst (reconcile id (Some series_same) exchange2 (Some ''sess-same'') False)] \<and>
   exchanges (fst (reconcile id (Some series_same) exchange2 (Some ''sess-same'') False)) =
     [exchange1, exchange2] \<and>
   episode_exid (fst (reconcile id (Some series_same) exchange2 (Some ''sess-same'') False)) =
     Some ''sess-same'' \<and>
   episode_hash (fst (reconcile id (Some series_same) exchange2 (Some ''sess-same'') False)) =
     ''sess-same:exchange-1-hash:exchange-2-hash''"
proof -
  have a: "episodes series_same \<noteq> []"
    by (simp add: series_same_def)
  have b: "episode_exid (last (episodes series_same)) = Some ''sess-same''"
    by (simp add: series_same_def)
  have l: "exchanges (last (episodes series_same)) = [exchange1]"
    "butlast (episodes series_same) = []"
    by (simp_all add: series_same_def)
  have h: "exchange_hash exchange1 = ''exchange-1-hash''"
    "exchange_hash exchange2 = ''exchange-2-hash''"
    by (simp_all add: exchange1_def exchange2_def)
  from continuation_extends_latest_episode [OF a b refl, of id exchange2]
  show ?thesis using a b by (simp add: l h)
qed

text \<open>
  \<^bold>\<open>C4.\<close> New window. When neither the continuation nor the compaction split applies,
  reconciliation appends an episode whose identifier is the observed session id
  (possibly \<open>None\<close>) and whose only exchange is the new one; the prior episodes are the
  unchanged prefix of the resulting list. (\<open>neither_case_iff\<close> spells out when neither
  case applies.)
\<close>

theorem new_window_appends_fresh_episode:
  assumes "\<not> isSameContextWindow compaction (episodeLatest (episodesPrior prior)) sid"
    and "\<not> isCompactionSplit False compaction (episodeLatest (episodesPrior prior)) sid"
    and "r = reconcile sha prior exchange sid compaction"
  shows "episodes (snd r) = episodesPrior prior @ [fst r] \<and>
         take (length (episodesPrior prior)) (episodes (snd r)) = episodesPrior prior \<and>
         episode_exid (fst r) = sid \<and>
         exchanges (fst r) = [exchange]"
  using assms
  by (simp add: reconcile_def Let_def)

theorem new_window_witness:
  "\<not> isSameContextWindow False (episodeLatest (episodesPrior (Some series_old))) (Some ''sess-new'') \<and>
   \<not> isCompactionSplit False False (episodeLatest (episodesPrior (Some series_old)))
        (Some ''sess-new'') \<and>
   episodes (snd (reconcile id (Some series_old) exchange2 (Some ''sess-new'') False)) =
     episodes series_old @
     [fst (reconcile id (Some series_old) exchange2 (Some ''sess-new'') False)] \<and>
   episode_exid (fst (reconcile id (Some series_old) exchange2 (Some ''sess-new'') False)) =
     Some ''sess-new'' \<and>
   exchanges (fst (reconcile id (Some series_old) exchange2 (Some ''sess-new'') False)) =
     [exchange2] \<and>
   episode_exid (fst (reconcile id None exchange2 None True)) = None \<and>
   episodes (snd (reconcile id None exchange2 None True)) =
     [fst (reconcile id None exchange2 None True)]"
proof -
  have a: "\<not> isSameContextWindow False (episodeLatest (episodesPrior (Some series_old)))
               (Some ''sess-new'')"
    by (simp add: isSameContextWindow_def episodeLatest_def episodesPrior_def series_old_def)
  have b: "\<not> isCompactionSplit False False (episodeLatest (episodesPrior (Some series_old)))
        (Some ''sess-new'')"
    by (simp add: isCompactionSplit_def)
  have c: "\<not> isSameContextWindow True (episodeLatest (episodesPrior None)) None"
    by (simp add: isSameContextWindow_def)
  have d: "\<not> isCompactionSplit False True (episodeLatest (episodesPrior None)) None"
    by (simp add: isCompactionSplit_def)
  have p: "episodesPrior (Some series_old) = episodes series_old" "episodesPrior None = []"
    by (simp_all add: episodesPrior_def)
  from new_window_appends_fresh_episode [OF a b refl, of id exchange2]
       new_window_appends_fresh_episode [OF c d refl, of id exchange2]
  show ?thesis using a b by (simp add: p)
qed

subsection \<open>Process supervision\<close>

text \<open>
  \<^bold>\<open>C9.\<close> Guards of \<open>ask\<close>, \<open>act\<close> and \<open>terminal.write\<close>. On a handle that was never
  booted (any sequence of calls and notifications without a \<open>boot\<close>), \<open>ask\<close>, \<open>act\<close> and
  \<open>terminal.write\<close> throw the "no live process" error; on a handle whose instance is in
  interact mode, \<open>ask\<close> and \<open>act\<close> throw the "interact mode" error. In each case the
  handle's state is returned as it was: nothing is written and the series is unchanged.
\<close>

theorem guards_reject_calls_without_dispatch_process:
  "(\<forall>c \<in> set cs. \<not> is_boot c) \<longrightarrow>
     (let h = run_calls rt config cs handle_init in
        ask rt config p stdout h =
          (Inl (UnexpectedCodePathError ''cannot ask: no live process. call executor.boot first''), h) \<and>
        act rt config p stdout h =
          (Inl (UnexpectedCodePathError ''cannot act: no live process. call executor.boot first''), h) \<and>
        terminal_write d h =
          (Inl (UnexpectedCodePathError ''cannot write: no live process''), h)) \<and>
   (\<forall>i. inst g = Some i \<and> mode i = Interact \<longrightarrow>
        ask rt config p stdout g =
          (Inl (UnexpectedCodePathError
                 ''cannot ask: handle is in interact mode. boot dispatch first''), g) \<and>
        act rt config p stdout g =
          (Inl (UnexpectedCodePathError
                 ''cannot act: handle is in interact mode. boot dispatch first''), g))"
proof -
  have init: "inst handle_init = None"
    by (simp add: handle_init_def)
  have a: "inst (run_calls rt config cs handle_init) = None" if "\<forall>c \<in> set cs. \<not> is_boot c"
    using never_booted_instance_null [OF init that] .
  have b: "inst h = None \<Longrightarrow>
        ask rt config p stdout h =
          (Inl (UnexpectedCodePathError ''cannot ask: no live process. call executor.boot first''), h) \<and>
        act rt config p stdout h =
          (Inl (UnexpectedCodePathError ''cannot act: no live process. call executor.boot first''), h) \<and>
        terminal_write d h =
          (Inl (UnexpectedCodePathError ''cannot write: no live process''), h)" for h
    by (simp add: ask_def act_def dispatch_task_def terminal_write_def verb_def)
  have c: "inst g = Some i \<Longrightarrow> mode i = Interact \<Longrightarrow>
        ask rt config p stdout g =
          (Inl (UnexpectedCodePathError
                 ''cannot ask: handle is in interact mode. boot dispatch first''), g) \<and>
        act rt config p stdout g =
          (Inl (UnexpectedCodePathError
                 ''cannot act: handle is in interact mode. boot dispatch first''), g)" for i
    by (simp add: ask_def act_def dispatch_task_def verb_def)
  from a b c show ?thesis
    by (simp add: Let_def)
qed

theorem guards_witness:
  "\<not> is_boot CallKill \<and> \<not> is_boot (CallOnExit 7) \<and>
   ask runtime_example config_example ''hello'' [End]
       (run_calls runtime_example config_example [CallKill, CallOnExit 7] handle_init) =
     (Inl (UnexpectedCodePathError ''cannot ask: no live process. call executor.boot first''),
      run_calls runtime_example config_example [CallKill, CallOnExit 7] handle_init) \<and>
   terminal_write ''hello''
       (run_calls runtime_example config_example [CallKill, CallOnExit 7] handle_init) =
     (Inl (UnexpectedCodePathError ''cannot write: no live process''),
      run_calls runtime_example config_example [CallKill, CallOnExit 7] handle_init) \<and>
   inst (boot config_example Interact handle_init) = Some \<lparr> pid = 0, mode = Interact \<rparr> \<and>
   act runtime_example config_example ''hello'' [End] (boot config_example Interact handle_init) =
     (Inl (UnexpectedCodePathError
            ''cannot act: handle is in interact mode. boot dispatch first''),
      boot config_example Interact handle_init)"
proof -
  have i: "inst (boot config_example Interact handle_init) = Some \<lparr> pid = 0, mode = Interact \<rparr>"
    by (simp add: boot_def boot_interact_def boot_interact_spawn_def killCurrentProcess_def
        handle_init_def Let_def)
  from guards_reject_calls_without_dispatch_process
         [of "[CallKill, CallOnExit 7]" runtime_example config_example "''hello''" "[End]"
             "''hello''" "boot config_example Interact handle_init"]
  show ?thesis
    using i by (simp add: Let_def)
qed




text \<open>
  \<^bold>\<open>C8.\<close> The exit listener's reference guard across a change of transport. After
  \<open>boot\<close> in dispatch mode and then \<open>boot\<close> in interact mode, \<open>childProcess\<close> still
  holds the superseded child 0 (\<open>killCurrentProcess\<close> does not clear it, and the interact
  branch of \<open>boot\<close> assigns \<open>ptyProcess\<close> only). The exit notification of child 0 therefore
  passes the guard and clears \<open>instance\<close>, which belongs to the live pty process 1; a
  following \<open>terminal.write\<close> fails with "no live process".
\<close>

theorem stale_child_exit_clears_pty_instance:
  "inst (boot config_example Interact (boot config_example Dispatch handle_init)) =
     Some \<lparr> pid = 1, mode = Interact \<rparr> \<and>
   ptyProcess (boot config_example Interact (boot config_example Dispatch handle_init)) = Some 1 \<and>
   childProcess (boot config_example Interact (boot config_example Dispatch handle_init)) = Some 0 \<and>
   inst (on_child_exit 0 None (Some ''SIGTERM'')
          (boot config_example Interact (boot config_example Dispatch handle_init))) = None \<and>
   ptyProcess (on_child_exit 0 None (Some ''SIGTERM'')
          (boot config_example Interact (boot config_example Dispatch handle_init))) = Some 1 \<and>
   fst (terminal_write ''hello''
          (on_child_exit 0 None (Some ''SIGTERM'')
            (boot config_example Interact (boot config_example Dispatch handle_init)))) =
     Inl (UnexpectedCodePathError ''cannot write: no live process'')"
  by (simp add: boot_def boot_dispatch_def boot_interact_def boot_interact_spawn_def
      killCurrentProcess_def kill_requests_def handle_init_def on_child_exit_def
      terminal_write_def Let_def)

end
